theory Spec2Isabelle
  imports Main
begin

section \<open>Data model (app/models.py)\<close>

text \<open>
  The tables of \<^verbatim>\<open>app/models.py\<close>. Integer columns are Python integers, hence \<open>int\<close>.
  Text is a list of characters; file contents are byte strings, also lists of characters.
  The columns that no handler reads (the surrogate ids of the tables other than
  \<^verbatim>\<open>files\<close>, and the creation timestamps filled in by column defaults) are left out.
\<close>

type_synonym bytes = string

record user =
  password :: string
  storage_quota :: int
  storage_used :: int

record file_row =
  file_id :: int
  filename :: string
  uploader :: string
  file_size :: int
  file_hash :: string
  is_duplicate :: bool
  folder :: "string option"

record share =
  share_file_id :: int
  share_token :: string
  created_by :: string
  is_active :: bool
  download_count :: int

record shared_file =
  shared_file_id :: int
  shared_by :: string
  shared_with :: string

record folder_row =
  folder_name :: string
  folder_owner :: string

record rate_limit =
  rl_username :: string
  rl_endpoint :: string
  rl_timestamp :: int

text \<open>
  The state of the service: the relational tables, the blob directory
  \<^verbatim>\<open>storage/blobs\<close> (a file per content hash) and the next primary key of the
  \<^verbatim>\<open>files\<close> table. \<^verbatim>\<open>users.username\<close> is declared unique, so the users table is a
  map from the username to the row. Every other table is the list of its rows in
  insertion order, which is the order \<^verbatim>\<open>.first()\<close> and \<^verbatim>\<open>.all()\<close> read them in.
\<close>

record state =
  users :: "string \<rightharpoonup> user"
  files :: "file_row list"
  shares :: "share list"
  shared_files :: "shared_file list"
  folders :: "folder_row list"
  rate_limits :: "rate_limit list"
  blobs :: "string \<rightharpoonup> bytes"
  next_file_id :: int

datatype response =
    RedirectResponse string nat
  | HTTPException nat "string option"
  | FileResponse string string
  | TemplateResponse string "string option"
  | InternalServerError

record upload =
  up_filename :: string
  up_content :: bytes

section \<open>Configuration (app/main.py)\<close>

definition UPLOAD_DIR :: string where
  "UPLOAD_DIR = ''storage/blobs''"

definition RATE_LIMIT_CALLS :: nat where
  "RATE_LIMIT_CALLS = 2"

text \<open>Times are \<^verbatim>\<open>datetime\<close> values, counted in microseconds.\<close>

definition RATE_LIMIT_WINDOW :: int where
  "RATE_LIMIT_WINDOW = 1 * 1000000"

definition CLEANUP_AGE :: int where
  "CLEANUP_AGE = 60 * 1000000"

definition STORAGE_QUOTA_MB :: int where
  "STORAGE_QUOTA_MB = 10"

section \<open>Text helpers\<close>

text \<open>Decimal rendering of a natural number, as \<^verbatim>\<open>str(n)\<close> and \<^verbatim>\<open>{n}\<close> produce it.\<close>

definition digit :: "nat \<Rightarrow> char" where
  "digit d = char_of (48 + d)"

fun show_nat :: "nat \<Rightarrow> string" where
  "show_nat n = (if n < 10 then [digit n] else show_nat (n div 10) @ [digit (n mod 10)])"

declare show_nat.simps [simp del]

text \<open>
  \<^verbatim>\<open>str.strip()\<close>: the characters Python counts as white space, among the code points
  below 256 that a \<open>char\<close> holds, are 9 to 13, 28 to 32, 133 and 160.
\<close>

definition isspace :: "char \<Rightarrow> bool" where
  "isspace c = (let n = (of_char c :: nat) in
     (9 \<le> n \<and> n \<le> 13) \<or> (28 \<le> n \<and> n \<le> 32) \<or> n = 133 \<or> n = 160)"

definition strip :: "string \<Rightarrow> string" where
  "strip s = rev (dropWhile isspace (rev (dropWhile isspace s)))"

text \<open>
  \<^verbatim>\<open>f"{x / (1024 * 1024):.2f}"\<close>: a byte count in MB with two decimals. The division
  by \<open>2 ^ 20\<close> is exact in binary floating point for \<open>\<bar>x\<bar> < 2 ^ 53\<close>, and the format rounds
  that exact value to the nearest hundredth, a tie going to the even one; the sign is
  printed in front of the rounded magnitude.
\<close>

definition mb_hundredths :: "nat \<Rightarrow> nat" where
  "mb_hundredths x =
     (let q = (x * 100) div 1048576; r = (x * 100) mod 1048576
      in if 2 * r > 1048576 \<or> (2 * r = 1048576 \<and> odd q) then q + 1 else q)"

definition fmt_mb_2f :: "int \<Rightarrow> string" where
  "fmt_mb_2f x =
     (let h = mb_hundredths (nat \<bar>x\<bar>)
      in (if x < 0 then ''-'' else '''') @ show_nat (h div 100) @ ''.''
           @ [digit ((h mod 100) div 10), digit (h mod 10)])"

section \<open>Rate limiting and quota (app/main.py)\<close>

text \<open>
  \<^verbatim>\<open>check_rate_limit\<close>, with the clock reading \<^verbatim>\<open>datetime.utcnow()\<close> as the argument
  \<open>now\<close>. It returns whether the request is allowed, and the state with the request
  logged and the entries older than a minute removed.
\<close>

definition recent_requests :: "string \<Rightarrow> string \<Rightarrow> int \<Rightarrow> state \<Rightarrow> nat" where
  "recent_requests username endpoint now s =
     length (filter (\<lambda>r. rl_username r = username \<and> rl_endpoint r = endpoint
                          \<and> rl_timestamp r \<ge> now - RATE_LIMIT_WINDOW) (rate_limits s))"

definition check_rate_limit :: "string \<Rightarrow> string \<Rightarrow> int \<Rightarrow> state \<Rightarrow> bool \<times> state" where
  "check_rate_limit username endpoint now s =
     (if recent_requests username endpoint now s \<ge> RATE_LIMIT_CALLS then (False, s)
      else (True, s\<lparr>rate_limits :=
              filter (\<lambda>r. \<not> rl_timestamp r < now - CLEANUP_AGE)
                (rate_limits s @
                   [\<lparr>rl_username = username, rl_endpoint = endpoint, rl_timestamp = now\<rparr>])\<rparr>))"

definition check_storage_quota :: "string \<Rightarrow> int \<Rightarrow> state \<Rightarrow> bool \<times> string" where
  "check_storage_quota username fsize s =
     (case users s username of
        None \<Rightarrow> (False, ''User not found'')
      | Some u \<Rightarrow>
          if storage_used u + fsize > storage_quota u
          then (False, ''Storage quota exceeded! You have '' @ fmt_mb_2f (storage_used u)
                         @ '' MB / '' @ fmt_mb_2f (storage_quota u) @ '' MB used.'')
          else (True, ''''))"

section \<open>Request handlers (app/main.py)\<close>

text \<open>
  \<^verbatim>\<open>request.cookies.get("user")\<close> followed by \<^verbatim>\<open>if not username\<close>: a missing cookie
  and an empty one both send the client to the login page.
\<close>

definition cookie_user :: "string option \<Rightarrow> string option" where
  "cookie_user c = (case c of None \<Rightarrow> None | Some u \<Rightarrow> if u = [] then None else Some u)"

definition blob_path :: "string \<Rightarrow> string" where
  "blob_path fhash = UPLOAD_DIR @ ''/'' @ fhash"

subsection \<open>Upload\<close>

text \<open>
  The body of the loop of \<^verbatim>\<open>upload_file\<close>, on the state and the two counters.

  Three things the handler uses are not in the source files and are arguments:
  \<^item> \<open>sha256\<close>, the digest \<^verbatim>\<open>hashlib.sha256(content).hexdigest()\<close>;
  \<^item> \<open>autoflush\<close>, the setting of the session factory of \<^verbatim>\<open>app/database.py\<close>: with it, a
    query sees the records added earlier in the same request; without it, a query sees
    the rows present when the request began (\<open>committed\<close>), and the added records reach
    the table at \<^verbatim>\<open>db.commit()\<close>. The user row is the same object all along, so the
    quota check reads the usage already charged in this request either way;
  \<^item> the primary key of a new row, taken from the counter \<open>next_file_id\<close>.

  In the model the added records are appended to \<open>files\<close> at once, in the order and with
  the keys they get at the flush, and the prior-upload query reads the list it can see.
\<close>

definition upload_item ::
  "(bytes \<Rightarrow> string) \<Rightarrow> bool \<Rightarrow> file_row list \<Rightarrow> string \<Rightarrow> string option \<Rightarrow> upload
     \<Rightarrow> state \<times> nat \<times> nat \<Rightarrow> state \<times> nat \<times> nat" where
  "upload_item sha256 autoflush committed username folder_arg file acc =
     (case acc of (s, uploaded_count, skipped_count) \<Rightarrow>
      let content = up_content file;
          fsize = int (length content);
          fhash = sha256 content;
          path = blob_path fhash;
          user_has_uploaded_before =
            (find (\<lambda>f. uploader f = username \<and> file_hash f = fhash)
               (if autoflush then files s else committed) \<noteq> None)
      in if \<not> user_has_uploaded_before \<and> \<not> fst (check_storage_quota username fsize s)
         then (s, uploaded_count, skipped_count + 1)
         else
           let s1 = (if blobs s path = None then s\<lparr>blobs := (blobs s)(path \<mapsto> content)\<rparr>
                     else s);
               folder_name = (case folder_arg of None \<Rightarrow> None
                              | Some f \<Rightarrow> if f = [] then None else Some (strip f));
               record = \<lparr>file_id = next_file_id s1, filename = up_filename file,
                         uploader = username, file_size = fsize, file_hash = fhash,
                         is_duplicate = user_has_uploaded_before, folder = folder_name\<rparr>;
               s2 = s1\<lparr>files := files s1 @ [record], next_file_id := next_file_id s1 + 1\<rparr>;
               s3 = (if \<not> user_has_uploaded_before
                     then (case users s2 username of
                             Some u \<Rightarrow> s2\<lparr>users := (users s2)(username \<mapsto>
                                         u\<lparr>storage_used := storage_used u + fsize\<rparr>)\<rparr>
                           | None \<Rightarrow> s2)
                     else s2)
           in (s3, uploaded_count + 1, skipped_count))"

text \<open>
  The branch \<open>None \<Rightarrow> s2\<close> is never taken: it is reached only after
  \<open>check_storage_quota\<close> has found the row of \<open>username\<close>.
\<close>

fun upload_loop ::
  "(bytes \<Rightarrow> string) \<Rightarrow> bool \<Rightarrow> file_row list \<Rightarrow> string \<Rightarrow> string option \<Rightarrow> upload list
     \<Rightarrow> state \<times> nat \<times> nat \<Rightarrow> state \<times> nat \<times> nat" where
  "upload_loop sha256 autoflush committed username folder_arg [] acc = acc"
| "upload_loop sha256 autoflush committed username folder_arg (file # rest) acc =
     upload_loop sha256 autoflush committed username folder_arg rest
       (upload_item sha256 autoflush committed username folder_arg file acc)"

definition upload_file ::
  "(bytes \<Rightarrow> string) \<Rightarrow> bool \<Rightarrow> int \<Rightarrow> string option \<Rightarrow> upload list \<Rightarrow> string option
     \<Rightarrow> state \<Rightarrow> response \<times> state" where
  "upload_file sha256 autoflush now cookie fs folder_arg s =
     (case cookie_user cookie of
        None \<Rightarrow> (RedirectResponse ''/login'' 307, s)
      | Some username \<Rightarrow>
          (case check_rate_limit username ''upload'' now s of
             (False, s0) \<Rightarrow> (RedirectResponse ''/upload?upload_error=rate_limit'' 302, s0)
           | (True, s0) \<Rightarrow>
               (case upload_loop sha256 autoflush (files s0) username folder_arg fs (s0, 0, 0) of
                  (s1, uploaded_count, skipped_count) \<Rightarrow>
                    if skipped_count > 0
                    then (RedirectResponse (''/upload?upload_error=quota&msg=Uploaded ''
                            @ show_nat uploaded_count @ '' file(s). '' @ show_nat skipped_count
                            @ '' file(s) skipped due to storage quota.'') 302, s1)
                    else (RedirectResponse ''/upload'' 302, s1))))"

text \<open>
  The grouping of \<^verbatim>\<open>upload_page\<close>: \<^verbatim>\<open>f.folder if f.folder else "Root"\<close>.
\<close>

definition folder_group :: "file_row \<Rightarrow> string" where
  "folder_group f = (case folder f of None \<Rightarrow> ''Root''
                     | Some n \<Rightarrow> if n = [] then ''Root'' else n)"

subsection \<open>Download\<close>

definition download_file :: "int \<Rightarrow> string option \<Rightarrow> state \<Rightarrow> response" where
  "download_file fid cookie s =
     (case cookie_user cookie of
        None \<Rightarrow> RedirectResponse ''/login'' 307
      | Some username \<Rightarrow>
          (case find (\<lambda>f. file_id f = fid) (files s) of
             None \<Rightarrow> HTTPException 404 None
           | Some file \<Rightarrow>
               if uploader file \<noteq> username
                  \<and> find (\<lambda>e. shared_file_id e = fid \<and> shared_with e = username)
                        (shared_files s) = None
               then HTTPException 403 (Some ''Access denied'')
               else if blobs s (blob_path (file_hash file)) = None
               then HTTPException 404 None
               else FileResponse (blob_path (file_hash file)) (filename file)))"

subsection \<open>Delete\<close>

text \<open>
  \<^verbatim>\<open>delete_file\<close>. When the record is an original and the uploader has no user row,
  \<^verbatim>\<open>user.storage_used\<close> raises on \<^verbatim>\<open>None\<close>: the request ends in a server error with
  nothing but the rate-limit entry committed.
\<close>

definition delete_file :: "int \<Rightarrow> string option \<Rightarrow> int \<Rightarrow> state \<Rightarrow> response \<times> state" where
  "delete_file now cookie fid s =
     (case cookie_user cookie of
        None \<Rightarrow> (RedirectResponse ''/login'' 307, s)
      | Some username \<Rightarrow>
          (case check_rate_limit username ''delete'' now s of
             (False, s0) \<Rightarrow> (RedirectResponse ''/upload?upload_error=rate_limit'' 302, s0)
           | (True, s0) \<Rightarrow>
               (case find (\<lambda>f. file_id f = fid \<and> uploader f = username) (files s0) of
                  None \<Rightarrow> (HTTPException 404 None, s0)
                | Some file \<Rightarrow>
                    if \<not> is_duplicate file
                       \<and> length (filter (\<lambda>f. uploader f = username
                                   \<and> file_hash f = file_hash file \<and> is_duplicate f) (files s0)) > 0
                    then (RedirectResponse ''/upload?error=delete_duplicates_first'' 302, s0)
                    else if \<not> is_duplicate file \<and> users s0 username = None
                    then (InternalServerError, s0)
                    else
                      let path = blob_path (file_hash file);
                          s1 = (if \<not> is_duplicate file
                                then (case users s0 username of
                                        Some u \<Rightarrow> s0\<lparr>users := (users s0)(username \<mapsto>
                                          u\<lparr>storage_used :=
                                              (if storage_used u - file_size file < 0 then 0
                                               else storage_used u - file_size file)\<rparr>)\<rparr>
                                      | None \<Rightarrow> s0)
                                else s0);
                          s2 = s1\<lparr>shares := filter (\<lambda>e. share_file_id e \<noteq> fid) (shares s1),
                                  shared_files :=
                                    filter (\<lambda>e. shared_file_id e \<noteq> fid) (shared_files s1)\<rparr>;
                          s3 = s2\<lparr>files := filter (\<lambda>f. file_id f \<noteq> file_id file) (files s2)\<rparr>;
                          s4 = (if length (filter (\<lambda>f. file_hash f = file_hash file) (files s3)) = 0
                                then (if blobs s3 path \<noteq> None
                                      then s3\<lparr>blobs := (blobs s3)(path := None)\<rparr> else s3)
                                else s3)
                      in (RedirectResponse ''/upload'' 302, s4))))"

text \<open>The gate of \<^verbatim>\<open>delete_file\<close>: an original whose uploader still has duplicates of it.\<close>

definition delete_gate :: "string \<Rightarrow> file_row \<Rightarrow> state \<Rightarrow> bool" where
  "delete_gate username file s \<longleftrightarrow>
     \<not> is_duplicate file \<and> filter (\<lambda>f. uploader f = username
        \<and> file_hash f = file_hash file \<and> is_duplicate f) (files s) \<noteq> []"

subsection \<open>Accounts, folders and shares\<close>

text \<open>\<^verbatim>\<open>helpers.hash_password\<close> is not in the source files and is an argument.\<close>

definition signup :: "(string \<Rightarrow> string) \<Rightarrow> string \<Rightarrow> string \<Rightarrow> state \<Rightarrow> response \<times> state" where
  "signup hash_password username pw s =
     (if users s username \<noteq> None
      then (TemplateResponse ''signup.html'' (Some ''Username already exists''), s)
      else (RedirectResponse ''/login'' 302,
            s\<lparr>users := (users s)(username \<mapsto>
                 \<lparr>password = hash_password pw,
                  storage_quota = STORAGE_QUOTA_MB * 1024 * 1024,
                  storage_used = 0\<rparr>)\<rparr>))"

definition create_folder :: "int \<Rightarrow> string option \<Rightarrow> string \<Rightarrow> state \<Rightarrow> response \<times> state" where
  "create_folder now cookie name_arg s =
     (case cookie_user cookie of
        None \<Rightarrow> (RedirectResponse ''/login'' 307, s)
      | Some username \<Rightarrow>
          (case check_rate_limit username ''create-folder'' now s of
             (False, s0) \<Rightarrow> (RedirectResponse ''/upload?upload_error=rate_limit'' 302, s0)
           | (True, s0) \<Rightarrow>
               let name = strip name_arg in
               if name = [] \<or> CHR ''/'' \<in> set name \<or> CHR 0x5C \<in> set name
               then (RedirectResponse ''/upload'' 302, s0)
               else if find (\<lambda>d. folder_name d = name \<and> folder_owner d = username) (folders s0)
                         \<noteq> None
               then (RedirectResponse ''/upload'' 302, s0)
               else (RedirectResponse ''/upload'' 302,
                     s0\<lparr>folders := folders s0 @ [\<lparr>folder_name = name, folder_owner = username\<rparr>]\<rparr>)))"

definition share_with_user ::
  "int \<Rightarrow> string option \<Rightarrow> int \<Rightarrow> string \<Rightarrow> state \<Rightarrow> response \<times> state" where
  "share_with_user now cookie fid target_user s =
     (case cookie_user cookie of
        None \<Rightarrow> (RedirectResponse ''/login'' 307, s)
      | Some username \<Rightarrow>
          (case check_rate_limit username ''share-with-user'' now s of
             (False, s0) \<Rightarrow> (RedirectResponse ''/upload?upload_error=rate_limit'' 302, s0)
           | (True, s0) \<Rightarrow>
               if find (\<lambda>f. file_id f = fid \<and> uploader f = username) (files s0) = None
               then (HTTPException 404 None, s0)
               else if users s0 target_user = None
               then (RedirectResponse ''/upload'' 302, s0)
               else if find (\<lambda>e. shared_file_id e = fid \<and> shared_with e = target_user)
                         (shared_files s0) \<noteq> None
               then (RedirectResponse ''/upload'' 302, s0)
               else (RedirectResponse ''/upload'' 302,
                     s0\<lparr>shared_files := shared_files s0 @
                          [\<lparr>shared_file_id = fid, shared_by = username,
                            shared_with = target_user\<rparr>]\<rparr>)))"

text \<open>The token \<^verbatim>\<open>secrets.token_urlsafe(16)\<close> is random and is an argument.\<close>

definition create_share ::
  "string \<Rightarrow> int \<Rightarrow> string option \<Rightarrow> int \<Rightarrow> state \<Rightarrow> response \<times> state" where
  "create_share token now cookie fid s =
     (case cookie_user cookie of
        None \<Rightarrow> (RedirectResponse ''/login'' 307, s)
      | Some username \<Rightarrow>
          (case check_rate_limit username ''share'' now s of
             (False, s0) \<Rightarrow> (RedirectResponse ''/upload?upload_error=rate_limit'' 302, s0)
           | (True, s0) \<Rightarrow>
               if find (\<lambda>f. file_id f = fid \<and> uploader f = username) (files s0) = None
               then (HTTPException 404 None, s0)
               else if find (\<lambda>e. share_file_id e = fid \<and> is_active e) (shares s0) \<noteq> None
               then (RedirectResponse ''/upload'' 302, s0)
               else (RedirectResponse ''/upload'' 302,
                     s0\<lparr>shares := shares s0 @
                          [\<lparr>share_file_id = fid, share_token = token, created_by = username,
                            is_active = True, download_count = 0\<rparr>]\<rparr>)))"

definition revoke_share :: "string option \<Rightarrow> int \<Rightarrow> state \<Rightarrow> response \<times> state" where
  "revoke_share cookie fid s =
     (case cookie_user cookie of
        None \<Rightarrow> (RedirectResponse ''/login'' 307, s)
      | Some username \<Rightarrow>
          if find (\<lambda>f. file_id f = fid \<and> uploader f = username) (files s) = None
          then (HTTPException 404 None, s)
          else (RedirectResponse ''/upload'' 302,
                s\<lparr>shares := map (\<lambda>e. if share_file_id e = fid then e\<lparr>is_active := False\<rparr> else e)
                                (shares s)\<rparr>))"

text \<open>\<^verbatim>\<open>share.download_count += 1\<close> on the first active share with the token.\<close>

fun bump_first :: "(share \<Rightarrow> bool) \<Rightarrow> share list \<Rightarrow> share list" where
  "bump_first P [] = []"
| "bump_first P (e # es) =
     (if P e then e\<lparr>download_count := download_count e + 1\<rparr> # es else e # bump_first P es)"

definition public_download :: "string \<Rightarrow> state \<Rightarrow> response \<times> state" where
  "public_download token s =
     (case find (\<lambda>e. share_token e = token \<and> is_active e) (shares s) of
        None \<Rightarrow> (HTTPException 404 None, s)
      | Some sh \<Rightarrow>
          (case find (\<lambda>f. file_id f = share_file_id sh) (files s) of
             None \<Rightarrow> (HTTPException 404 None, s)
           | Some file \<Rightarrow>
               if blobs s (blob_path (file_hash file)) = None then (HTTPException 404 None, s)
               else (FileResponse (blob_path (file_hash file)) (filename file),
                     s\<lparr>shares := bump_first (\<lambda>e. share_token e = token \<and> is_active e)
                                   (shares s)\<rparr>)))"

subsection \<open>Runs of the service\<close>

text \<open>
  The requests that change the state, the service's answer to one request, and the state
  after a sequence of requests. A reachable state is the state after some sequence of
  requests on a database with empty tables.
\<close>

datatype request =
    Signup string string
  | Upload int "string option" "upload list" "string option"
  | Delete int "string option" int
  | CreateFolder int "string option" string
  | ShareWithUser int "string option" int string
  | CreateShare string int "string option" int
  | RevokeShare "string option" int
  | PublicDownload string

record env =
  env_sha256 :: "bytes \<Rightarrow> string"
  env_autoflush :: bool
  env_hash_password :: "string \<Rightarrow> string"

fun handle :: "env \<Rightarrow> request \<Rightarrow> state \<Rightarrow> response \<times> state" where
  "handle e (Signup username pw) s = signup (env_hash_password e) username pw s"
| "handle e (Upload now cookie fs folder_arg) s =
     upload_file (env_sha256 e) (env_autoflush e) now cookie fs folder_arg s"
| "handle e (Delete now cookie fid) s = delete_file now cookie fid s"
| "handle e (CreateFolder now cookie name_arg) s = create_folder now cookie name_arg s"
| "handle e (ShareWithUser now cookie fid target_user) s =
     share_with_user now cookie fid target_user s"
| "handle e (CreateShare token now cookie fid) s = create_share token now cookie fid s"
| "handle e (RevokeShare cookie fid) s = revoke_share cookie fid s"
| "handle e (PublicDownload token) s = public_download token s"

fun run :: "env \<Rightarrow> request list \<Rightarrow> state \<Rightarrow> state" where
  "run e [] s = s"
| "run e (r # rs) s = run e rs (snd (handle e r s))"

definition initial_state :: "(string \<rightharpoonup> bytes) \<Rightarrow> state" where
  "initial_state disk =
     \<lparr>users = Map.empty, files = [], shares = [], shared_files = [], folders = [],
      rate_limits = [], blobs = disk, next_file_id = 1\<rparr>"

text \<open>
  Names for three things \<^verbatim>\<open>upload_file\<close> computes for an item: whether the uploader has a
  record of the content already, the folder it stores, and the record it adds.
\<close>

definition prior_upload :: "bool \<Rightarrow> file_row list \<Rightarrow> string \<Rightarrow> string \<Rightarrow> state \<Rightarrow> bool" where
  "prior_upload autoflush committed username fhash s \<longleftrightarrow>
     find (\<lambda>f. uploader f = username \<and> file_hash f = fhash)
       (if autoflush then files s else committed) \<noteq> None"

definition stored_folder :: "string option \<Rightarrow> string option" where
  "stored_folder folder_arg =
     (case folder_arg of None \<Rightarrow> None | Some f \<Rightarrow> if f = [] then None else Some (strip f))"

definition new_record ::
  "(bytes \<Rightarrow> string) \<Rightarrow> string \<Rightarrow> string option \<Rightarrow> upload \<Rightarrow> bool \<Rightarrow> int \<Rightarrow> file_row" where
  "new_record sha256 username folder_arg file dup fid =
     \<lparr>file_id = fid, filename = up_filename file, uploader = username,
      file_size = int (length (up_content file)), file_hash = sha256 (up_content file),
      is_duplicate = dup, folder = stored_folder folder_arg\<rparr>"

section \<open>Example data\<close>

text \<open>
  A concrete environment and concrete runs, on which the theorems below are instantiated.
  The digest of the example environment prefixes the content, so it is injective.
\<close>

definition example_env :: env where
  "example_env =
     \<lparr>env_sha256 = (\<lambda>c. ''h:'' @ c), env_autoflush = True, env_hash_password = (\<lambda>p. p)\<rparr>"

definition hello :: upload where
  "hello = \<lparr>up_filename = ''a.txt'', up_content = ''hello''\<rparr>"

definition hello_row :: file_row where
  "hello_row = \<lparr>file_id = 1, filename = ''a.txt'', uploader = ''alice'', file_size = 5,
                 file_hash = ''h:hello'', is_duplicate = False, folder = None\<rparr>"

definition shared_state :: state where
  "shared_state = run example_env
     [Signup ''alice'' ''pw'', Signup ''bob'' ''pw'', Signup ''carol'' ''pw'',
      Upload 0 (Some ''alice'') [hello] None,
      ShareWithUser 5 (Some ''alice'') 1 ''bob'']
     (initial_state Map.empty)"

definition hello_copy :: file_row where
  "hello_copy = \<lparr>file_id = 2, filename = ''a.txt'', uploader = ''alice'', file_size = 5,
                  file_hash = ''h:hello'', is_duplicate = True, folder = None\<rparr>"

definition hello_bob :: file_row where
  "hello_bob = \<lparr>file_id = 2, filename = ''a.txt'', uploader = ''bob'', file_size = 5,
                 file_hash = ''h:hello'', is_duplicate = False, folder = None\<rparr>"

definition twice_state :: state where
  "twice_state = run example_env
     [Signup ''alice'' ''pw'',
      Upload 0 (Some ''alice'') [hello] None,
      Upload 2000000 (Some ''alice'') [hello] None]
     (initial_state Map.empty)"

definition two_owner_state :: state where
  "two_owner_state = run example_env
     [Signup ''alice'' ''pw'', Signup ''bob'' ''pw'',
      Upload 0 (Some ''alice'') [hello] None,
      Upload 0 (Some ''bob'') [hello] None]
     (initial_state Map.empty)"

definition one_owner_state :: state where
  "one_owner_state = snd (delete_file 5000000 (Some ''alice'') 1 two_owner_state)"

section \<open>Download access control\<close>

text \<open>
  C10. A download of an existing record by a logged-in user who is neither its uploader
  nor the target of a private share of that record id is answered 403 "Access denied", and
  no file is served. The uploader, and a user the record was shared with, get the blob
  under the record's filename when the blob exists.
\<close>

theorem download_file_access:
  assumes "cookie_user cookie = Some username"
    and "find (\<lambda>f. file_id f = fid) (files s) = Some file"
  shows "(uploader file \<noteq> username
            \<and> (\<forall>e \<in> set (shared_files s). \<not> (shared_file_id e = fid \<and> shared_with e = username))
          \<longrightarrow> download_file fid cookie s = HTTPException 403 (Some ''Access denied''))
       \<and> ((uploader file = username
             \<or> (\<exists>e \<in> set (shared_files s). shared_file_id e = fid \<and> shared_with e = username))
            \<and> blobs s (blob_path (file_hash file)) \<noteq> None
          \<longrightarrow> download_file fid cookie s
                = FileResponse (blob_path (file_hash file)) (filename file))"
  using assms by (auto simp: download_file_def find_None_iff)

theorem download_file_access_witness:
  "cookie_user (Some ''carol'') = Some ''carol''
   \<and> find (\<lambda>f. file_id f = 1) (files shared_state) = Some hello_row
   \<and> download_file 1 (Some ''carol'') shared_state = HTTPException 403 (Some ''Access denied'')
   \<and> download_file 1 (Some ''alice'') shared_state = FileResponse ''storage/blobs/h:hello'' ''a.txt''
   \<and> download_file 1 (Some ''bob'') shared_state = FileResponse ''storage/blobs/h:hello'' ''a.txt''"
proof -
  have row: "find (\<lambda>f. file_id f = 1) (files shared_state) = Some hello_row"
    by code_simp
  have carol: "cookie_user (Some ''carol'') = Some ''carol''"
    and alice: "cookie_user (Some ''alice'') = Some ''alice''"
    and bob: "cookie_user (Some ''bob'') = Some ''bob''"
    by code_simp+
  have stranger: "uploader hello_row \<noteq> ''carol''
      \<and> (\<forall>e \<in> set (shared_files shared_state).
            \<not> (shared_file_id e = 1 \<and> shared_with e = ''carol''))"
    by code_simp
  have owner: "uploader hello_row = ''alice''"
    by code_simp
  have grantee: "\<exists>e \<in> set (shared_files shared_state).
      shared_file_id e = 1 \<and> shared_with e = ''bob''"
    by code_simp
  have blob: "blobs shared_state (blob_path (file_hash hello_row)) \<noteq> None"
    by code_simp
  have path: "blob_path (file_hash hello_row) = ''storage/blobs/h:hello''"
    and name: "filename hello_row = ''a.txt''"
    by code_simp+
  show ?thesis
    using download_file_access [OF carol row] download_file_access [OF alice row]
      download_file_access [OF bob row] row carol stranger owner grantee blob path name
    by metis
qed

section \<open>Basic facts about the handlers\<close>

lemma check_rate_limit_tables:
  "users (snd (check_rate_limit u ep now s)) = users s"
  "files (snd (check_rate_limit u ep now s)) = files s"
  "shares (snd (check_rate_limit u ep now s)) = shares s"
  "shared_files (snd (check_rate_limit u ep now s)) = shared_files s"
  "folders (snd (check_rate_limit u ep now s)) = folders s"
  "blobs (snd (check_rate_limit u ep now s)) = blobs s"
  "next_file_id (snd (check_rate_limit u ep now s)) = next_file_id s"
  by (simp_all add: check_rate_limit_def)

lemma find_SomeD: "find P xs = Some x \<Longrightarrow> P x \<and> x \<in> set xs"
  by (induction xs) (auto split: if_splits)

text \<open>The answers of \<^verbatim>\<open>delete_file\<close> other than success leave the tables alone.\<close>

lemma delete_file_cases:
  assumes "cookie_user cookie = Some username"
    and "find (\<lambda>f. file_id f = fid \<and> uploader f = username) (files s) = Some file"
  obtains
    (limited) "\<not> fst (check_rate_limit username ''delete'' now s)"
      "delete_file now cookie fid s = (RedirectResponse ''/upload?upload_error=rate_limit'' 302, s)"
  | (refused) "fst (check_rate_limit username ''delete'' now s)" "delete_gate username file s"
      "delete_file now cookie fid s = (RedirectResponse ''/upload?error=delete_duplicates_first'' 302,
         snd (check_rate_limit username ''delete'' now s))"
  | (crash) "fst (check_rate_limit username ''delete'' now s)" "\<not> delete_gate username file s"
      "\<not> is_duplicate file" "users s username = None"
      "delete_file now cookie fid s = (InternalServerError,
         snd (check_rate_limit username ''delete'' now s))"
  | (duplicate) "fst (check_rate_limit username ''delete'' now s)" "is_duplicate file"
      "fst (delete_file now cookie fid s) = RedirectResponse ''/upload'' 302"
      "users (snd (delete_file now cookie fid s)) = users s"
  | (original) u where "fst (check_rate_limit username ''delete'' now s)"
      "\<not> delete_gate username file s" "\<not> is_duplicate file" "users s username = Some u"
      "fst (delete_file now cookie fid s) = RedirectResponse ''/upload'' 302"
      "users (snd (delete_file now cookie fid s)) = (users s)(username \<mapsto>
         u\<lparr>storage_used := max 0 (storage_used u - file_size file)\<rparr>)"
proof -
  obtain allowed s0 where crl: "check_rate_limit username ''delete'' now s = (allowed, s0)"
    by (cases "check_rate_limit username ''delete'' now s")
  have tabs: "users s0 = users s" "files s0 = files s"
    using check_rate_limit_tables(1,2) [of username "''delete''" now s] crl by simp_all
  show thesis
  proof (cases allowed)
    case False
    then have "s0 = s" using crl by (simp add: check_rate_limit_def split: if_splits)
    with False crl assms(1) limited show thesis by (simp add: delete_file_def)
  next
    case True
    note pre = assms(1) crl True assms(2) tabs
    show thesis
    proof (cases "delete_gate username file s")
      case True
      with pre refused show thesis
        by (simp add: delete_file_def delete_gate_def)
    next
      case nogate: False
      show thesis
      proof (cases "is_duplicate file")
        case True
        have "fst (delete_file now cookie fid s) = RedirectResponse ''/upload'' 302"
          using pre True by (simp add: delete_file_def Let_def)
        moreover have "users (snd (delete_file now cookie fid s)) = users s"
          using pre True by (simp add: delete_file_def Let_def)
        ultimately show thesis using duplicate pre True by simp
      next
        case notdup: False
        show thesis
        proof (cases "users s username")
          case None
          with pre nogate notdup crash show thesis
            by (simp add: delete_file_def delete_gate_def)
        next
          case (Some u)
          have "fst (delete_file now cookie fid s) = RedirectResponse ''/upload'' 302"
            using pre nogate notdup Some by (simp add: delete_file_def delete_gate_def Let_def)
          moreover have "users (snd (delete_file now cookie fid s)) = (users s)(username \<mapsto>
              u\<lparr>storage_used := max 0 (storage_used u - file_size file)\<rparr>)"
            using pre nogate notdup Some
            by (simp add: delete_file_def delete_gate_def Let_def max_def)
          ultimately show thesis using original pre nogate notdup Some by simp
        qed
      qed
    qed
  qed
qed


lemma delete_file_tables:
  assumes user: "cookie_user cookie = Some username"
    and row: "find (\<lambda>f. file_id f = fid \<and> uploader f = username) (files s) = Some file"
    and ok: "fst (delete_file now cookie fid s) = RedirectResponse ''/upload'' 302"
  shows "files (snd (delete_file now cookie fid s)) = filter (\<lambda>f. file_id f \<noteq> fid) (files s)"
    and "shares (snd (delete_file now cookie fid s))
           = filter (\<lambda>e. share_file_id e \<noteq> fid) (shares s)"
    and "shared_files (snd (delete_file now cookie fid s))
           = filter (\<lambda>e. shared_file_id e \<noteq> fid) (shared_files s)"
    and "blobs (snd (delete_file now cookie fid s))
           = (if filter (\<lambda>f. file_hash f = file_hash file)
                   (files (snd (delete_file now cookie fid s))) = []
              then (blobs s)(blob_path (file_hash file) := None) else blobs s)"
proof -
  obtain allowed s0 where crl: "check_rate_limit username ''delete'' now s = (allowed, s0)"
    by (cases "check_rate_limit username ''delete'' now s")
  have tabs: "users s0 = users s" "files s0 = files s" "shares s0 = shares s"
    "shared_files s0 = shared_files s" "blobs s0 = blobs s"
    using check_rate_limit_tables [of username "''delete''" now s] crl by simp_all
  have fid: "file_id file = fid"
    using find_SomeD [OF row] by simp
  have pre: "allowed \<and> \<not> delete_gate username file s
      \<and> (is_duplicate file \<or> users s username \<noteq> None)"
    using user row
  proof (cases rule: delete_file_cases [where now = now])
    case limited
    with ok show ?thesis by simp
  next
    case refused
    with ok show ?thesis by simp
  next
    case crash
    with ok show ?thesis by simp
  next
    case duplicate
    with crl show ?thesis by (simp add: delete_gate_def)
  next
    case (original u)
    with crl show ?thesis by simp
  qed
  then have allowed: allowed and gate: "\<not> delete_gate username file s"
    and urow: "is_duplicate file \<or> users s username \<noteq> None"
    by simp_all
  note facts = user crl allowed row tabs gate urow fid
  have unfold: "delete_file now cookie fid s =
     (let path = blob_path (file_hash file);
          s1 = (if \<not> is_duplicate file
                then (case users s0 username of
                        Some u \<Rightarrow> s0\<lparr>users := (users s0)(username \<mapsto>
                          u\<lparr>storage_used :=
                              (if storage_used u - file_size file < 0 then 0
                               else storage_used u - file_size file)\<rparr>)\<rparr>
                      | None \<Rightarrow> s0)
                else s0);
          s2 = s1\<lparr>shares := filter (\<lambda>e. share_file_id e \<noteq> fid) (shares s1),
                  shared_files :=
                    filter (\<lambda>e. shared_file_id e \<noteq> fid) (shared_files s1)\<rparr>;
          s3 = s2\<lparr>files := filter (\<lambda>f. file_id f \<noteq> file_id file) (files s2)\<rparr>;
          s4 = (if length (filter (\<lambda>f. file_hash f = file_hash file) (files s3)) = 0
                then (if blobs s3 path \<noteq> None
                      then s3\<lparr>blobs := (blobs s3)(path := None)\<rparr> else s3)
                else s3)
      in (RedirectResponse ''/upload'' 302, s4))"
    using facts by (auto simp: delete_file_def delete_gate_def)
  have proj: "files (case x of None \<Rightarrow> s0 | Some u \<Rightarrow> s0\<lparr>users := g u\<rparr>) = files s0"
    "shares (case x of None \<Rightarrow> s0 | Some u \<Rightarrow> s0\<lparr>users := g u\<rparr>) = shares s0"
    "shared_files (case x of None \<Rightarrow> s0 | Some u \<Rightarrow> s0\<lparr>users := g u\<rparr>) = shared_files s0"
    "blobs (case x of None \<Rightarrow> s0 | Some u \<Rightarrow> s0\<lparr>users := g u\<rparr>) = blobs s0"
    for g and x :: "user option"
    by (simp_all split: option.split)
  show "files (snd (delete_file now cookie fid s)) = filter (\<lambda>f. file_id f \<noteq> fid) (files s)"
    unfolding unfold by (simp add: Let_def proj tabs fid)
  show "shares (snd (delete_file now cookie fid s))
           = filter (\<lambda>e. share_file_id e \<noteq> fid) (shares s)"
    unfolding unfold by (simp add: Let_def proj tabs fid)
  show "shared_files (snd (delete_file now cookie fid s))
           = filter (\<lambda>e. shared_file_id e \<noteq> fid) (shared_files s)"
    unfolding unfold by (simp add: Let_def proj tabs fid)
  show "blobs (snd (delete_file now cookie fid s))
           = (if filter (\<lambda>f. file_hash f = file_hash file)
                   (files (snd (delete_file now cookie fid s))) = []
              then (blobs s)(blob_path (file_hash file) := None) else blobs s)"
    unfolding unfold by (auto simp add: Let_def proj tabs fid)
qed

lemma create_folder_tables:
  "users (snd (create_folder now cookie n s)) = users s"
  "files (snd (create_folder now cookie n s)) = files s"
  by (simp_all add: create_folder_def Let_def check_rate_limit_def split: option.split)

lemma share_with_user_tables:
  "users (snd (share_with_user now cookie fid t s)) = users s"
  "files (snd (share_with_user now cookie fid t s)) = files s"
  by (simp_all add: share_with_user_def check_rate_limit_def split: option.split)

lemma create_share_tables:
  "users (snd (create_share tok now cookie fid s)) = users s"
  "files (snd (create_share tok now cookie fid s)) = files s"
  by (simp_all add: create_share_def check_rate_limit_def split: option.split)

lemma revoke_share_tables:
  "users (snd (revoke_share cookie fid s)) = users s"
  "files (snd (revoke_share cookie fid s)) = files s"
  by (simp_all add: revoke_share_def split: option.split)

lemma public_download_tables:
  "users (snd (public_download tok s)) = users s"
  "files (snd (public_download tok s)) = files s"
  by (simp_all add: public_download_def split: option.split)

section \<open>Deletion\<close>

text \<open>
  C5. When the owner asks to delete an original record (\<open>is_duplicate = False\<close>) while a
  duplicate record of the same uploader and content hash exists, the request is refused:
  the answer is the redirect \<open>delete_duplicates_first\<close> (or the rate-limit redirect when
  the limiter denies the request), never the 404 of a missing record, and the file
  records, the users with their usage, the blobs and both kinds of shares are unchanged.
\<close>

theorem delete_original_with_duplicates_refused:
  assumes "cookie_user cookie = Some username"
    and "find (\<lambda>f. file_id f = fid \<and> uploader f = username) (files s) = Some file"
    and "\<not> is_duplicate file"
    and "\<exists>d \<in> set (files s). uploader d = username \<and> file_hash d = file_hash file
           \<and> is_duplicate d"
  shows "fst (delete_file now cookie fid s) =
           (if fst (check_rate_limit username ''delete'' now s)
            then RedirectResponse ''/upload?error=delete_duplicates_first'' 302
            else RedirectResponse ''/upload?upload_error=rate_limit'' 302)
       \<and> fst (delete_file now cookie fid s) \<noteq> HTTPException 404 None
       \<and> files (snd (delete_file now cookie fid s)) = files s
       \<and> users (snd (delete_file now cookie fid s)) = users s
       \<and> blobs (snd (delete_file now cookie fid s)) = blobs s
       \<and> shares (snd (delete_file now cookie fid s)) = shares s
       \<and> shared_files (snd (delete_file now cookie fid s)) = shared_files s"
proof -
  have gate: "delete_gate username file s"
    using assms(3,4) by (auto simp: delete_gate_def filter_empty_conv)
  from assms(1,2) show ?thesis
  proof (cases rule: delete_file_cases [where now = now])
    case limited
    then show ?thesis by simp
  next
    case refused
    then show ?thesis by (simp add: check_rate_limit_tables)
  next
    case crash
    with gate show ?thesis by simp
  next
    case duplicate
    with assms(3) show ?thesis by simp
  next
    case (original u)
    with gate show ?thesis by simp
  qed
qed

theorem delete_original_with_duplicates_refused_witness:
  "cookie_user (Some ''alice'') = Some ''alice''
   \<and> find (\<lambda>f. file_id f = 1 \<and> uploader f = ''alice'') (files twice_state) = Some hello_row
   \<and> \<not> is_duplicate hello_row
   \<and> (\<exists>d \<in> set (files twice_state). uploader d = ''alice''
         \<and> file_hash d = file_hash hello_row \<and> is_duplicate d)
   \<and> fst (delete_file 5000000 (Some ''alice'') 1 twice_state)
       = RedirectResponse ''/upload?error=delete_duplicates_first'' 302
   \<and> files (snd (delete_file 5000000 (Some ''alice'') 1 twice_state)) = [hello_row, hello_copy]
   \<and> blobs (snd (delete_file 5000000 (Some ''alice'') 1 twice_state)) = blobs twice_state"
proof -
  have user: "cookie_user (Some ''alice'') = Some ''alice''"
    by code_simp
  have row: "find (\<lambda>f. file_id f = 1 \<and> uploader f = ''alice'') (files twice_state)
      = Some hello_row"
    by code_simp
  have orig: "\<not> is_duplicate hello_row"
    by code_simp
  have dup: "\<exists>d \<in> set (files twice_state). uploader d = ''alice''
      \<and> file_hash d = file_hash hello_row \<and> is_duplicate d"
    by code_simp
  have allowed: "fst (check_rate_limit ''alice'' ''delete'' 5000000 twice_state)"
    by code_simp
  have rows: "files twice_state = [hello_row, hello_copy]"
    by code_simp
  show ?thesis
    using delete_original_with_duplicates_refused [OF user row orig dup, of 5000000]
      user row orig dup allowed rows
    by simp
qed

text \<open>
  C6. After a successful deletion the record is gone from the table, and the reference
  count of its content hash is taken on the table as it is then, over the records of all
  users: when the count is zero the blob is removed from the blob directory, and otherwise
  the blob directory is unchanged. In particular the blob stays while any other record,
  of any user, has the hash.
\<close>

theorem blob_removed_iff_unreferenced:
  assumes "cookie_user cookie = Some username"
    and "find (\<lambda>f. file_id f = fid \<and> uploader f = username) (files s) = Some file"
    and "fst (delete_file now cookie fid s) = RedirectResponse ''/upload'' 302"
  shows "files (snd (delete_file now cookie fid s)) = filter (\<lambda>f. file_id f \<noteq> fid) (files s)
       \<and> blobs (snd (delete_file now cookie fid s))
           = (if length (filter (\<lambda>f. file_hash f = file_hash file)
                   (files (snd (delete_file now cookie fid s)))) = 0
              then (blobs s)(blob_path (file_hash file) := None) else blobs s)
       \<and> ((\<exists>f \<in> set (files s). file_id f \<noteq> fid \<and> file_hash f = file_hash file)
            \<longrightarrow> blobs (snd (delete_file now cookie fid s)) = blobs s)"
proof -
  note tables = delete_file_tables [OF assms]
  have "filter (\<lambda>f. file_hash f = file_hash file) (filter (\<lambda>f. file_id f \<noteq> fid) (files s)) \<noteq> []"
    if "\<exists>f \<in> set (files s). file_id f \<noteq> fid \<and> file_hash f = file_hash file"
    using that by (auto simp: filter_empty_conv)
  then show ?thesis
    using tables(1,4) by simp
qed

theorem blob_removed_iff_unreferenced_witness:
  "fst (delete_file 5000000 (Some ''alice'') 1 two_owner_state) = RedirectResponse ''/upload'' 302
   \<and> (\<exists>f \<in> set (files two_owner_state). file_id f \<noteq> 1 \<and> file_hash f = file_hash hello_row)
   \<and> blobs one_owner_state = blobs two_owner_state
   \<and> blobs one_owner_state (blob_path ''h:hello'') = Some ''hello''
   \<and> files one_owner_state = [hello_bob]
   \<and> fst (delete_file 5000000 (Some ''bob'') 2 one_owner_state) = RedirectResponse ''/upload'' 302
   \<and> files (snd (delete_file 5000000 (Some ''bob'') 2 one_owner_state)) = []
   \<and> blobs (snd (delete_file 5000000 (Some ''bob'') 2 one_owner_state)) (blob_path ''h:hello'')
       = None"
proof -
  have alice: "cookie_user (Some ''alice'') = Some ''alice''"
    and bob: "cookie_user (Some ''bob'') = Some ''bob''"
    by code_simp+
  have row1: "find (\<lambda>f. file_id f = 1 \<and> uploader f = ''alice'') (files two_owner_state)
      = Some hello_row"
    by code_simp
  have ok1: "fst (delete_file 5000000 (Some ''alice'') 1 two_owner_state)
      = RedirectResponse ''/upload'' 302"
    by code_simp
  have other: "\<exists>f \<in> set (files two_owner_state). file_id f \<noteq> 1
      \<and> file_hash f = file_hash hello_row"
    by code_simp
  have present: "blobs two_owner_state (blob_path ''h:hello'') = Some ''hello''"
    by code_simp
  have rows1: "filter (\<lambda>f. file_id f \<noteq> 1) (files two_owner_state) = [hello_bob]"
    by code_simp
  have row2: "find (\<lambda>f. file_id f = 2 \<and> uploader f = ''bob'') (files one_owner_state)
      = Some hello_bob"
    by code_simp
  have ok2: "fst (delete_file 5000000 (Some ''bob'') 2 one_owner_state)
      = RedirectResponse ''/upload'' 302"
    by code_simp
  have rows2: "filter (\<lambda>f. file_id f \<noteq> 2) (files one_owner_state) = []"
    by code_simp
  have hash: "file_hash hello_bob = ''h:hello''"
    and hash_row: "file_hash hello_row = ''h:hello''"
    by code_simp+
  have first: "blobs one_owner_state = blobs two_owner_state
      \<and> files one_owner_state = [hello_bob]"
    using blob_removed_iff_unreferenced [OF alice row1 ok1] other rows1 hash hash_row
    by (simp add: one_owner_state_def)
  have second: "files (snd (delete_file 5000000 (Some ''bob'') 2 one_owner_state)) = []
      \<and> blobs (snd (delete_file 5000000 (Some ''bob'') 2 one_owner_state))
           (blob_path ''h:hello'') = None"
    using blob_removed_iff_unreferenced [OF bob row2 ok2] rows2 hash by simp
  show ?thesis
    using ok1 other first present ok2 second by simp
qed

subsection \<open>One item of an upload\<close>

lemma upload_item_unfold:
  "upload_item sha256 autoflush committed username folder_arg file (s, up, sk) =
     (if \<not> prior_upload autoflush committed username (sha256 (up_content file)) s
         \<and> \<not> fst (check_storage_quota username (int (length (up_content file))) s)
      then (s, up, sk + 1)
      else
        let dup = prior_upload autoflush committed username (sha256 (up_content file)) s;
            path = blob_path (sha256 (up_content file));
            s1 = (if blobs s path = None then s\<lparr>blobs := (blobs s)(path \<mapsto> up_content file)\<rparr>
                  else s);
            s2 = s1\<lparr>files := files s1
                       @ [new_record sha256 username folder_arg file dup (next_file_id s1)],
                    next_file_id := next_file_id s1 + 1\<rparr>;
            s3 = (if \<not> dup
                  then (case users s2 username of
                          Some u \<Rightarrow> s2\<lparr>users := (users s2)(username \<mapsto>
                            u\<lparr>storage_used := storage_used u + int (length (up_content file))\<rparr>)\<rparr>
                        | None \<Rightarrow> s2)
                  else s2)
        in (s3, up + 1, sk))"
  by (simp add: upload_item_def prior_upload_def new_record_def stored_folder_def Let_def)

lemma upload_item_skipped:
  assumes "\<not> prior_upload autoflush committed username (sha256 (up_content file)) s"
    and "\<not> fst (check_storage_quota username (int (length (up_content file))) s)"
  shows "upload_item sha256 autoflush committed username folder_arg file (s, up, sk)
           = (s, up, sk + 1)"
  using assms by (simp add: upload_item_unfold)

lemma check_storage_quota_ok:
  "fst (check_storage_quota username n s) \<longleftrightarrow>
     (\<exists>u. users s username = Some u \<and> storage_used u + n \<le> storage_quota u)"
  by (auto simp: check_storage_quota_def split: option.splits)

lemma upload_item_duplicate:
  fixes sha256 :: "bytes \<Rightarrow> string" and up sk :: nat and folder_arg :: "string option"
  assumes "prior_upload autoflush committed username (sha256 (up_content file)) s"
  defines "s' \<equiv> fst (upload_item sha256 autoflush committed username folder_arg file (s, up, sk))"
  shows "snd (upload_item sha256 autoflush committed username folder_arg file (s, up, sk))
           = (up + 1, sk)"
    and "files s' = files s @ [new_record sha256 username folder_arg file True (next_file_id s)]"
    and "next_file_id s' = next_file_id s + 1"
    and "blobs s' = (if blobs s (blob_path (sha256 (up_content file))) = None
                     then (blobs s)(blob_path (sha256 (up_content file)) \<mapsto> up_content file)
                     else blobs s)"
    and "users s' = users s"
    and "shares s' = shares s" and "shared_files s' = shared_files s"
    and "folders s' = folders s" and "rate_limits s' = rate_limits s"
  using assms(1) by (simp_all add: s'_def upload_item_unfold Let_def)

lemma upload_item_charged:
  fixes sha256 :: "bytes \<Rightarrow> string" and up sk :: nat and folder_arg :: "string option"
  assumes "\<not> prior_upload autoflush committed username (sha256 (up_content file)) s"
    and "users s username = Some u"
    and "storage_used u + int (length (up_content file)) \<le> storage_quota u"
  defines "s' \<equiv> fst (upload_item sha256 autoflush committed username folder_arg file (s, up, sk))"
  shows "snd (upload_item sha256 autoflush committed username folder_arg file (s, up, sk))
           = (up + 1, sk)"
    and "files s' = files s @ [new_record sha256 username folder_arg file False (next_file_id s)]"
    and "next_file_id s' = next_file_id s + 1"
    and "blobs s' = (if blobs s (blob_path (sha256 (up_content file))) = None
                     then (blobs s)(blob_path (sha256 (up_content file)) \<mapsto> up_content file)
                     else blobs s)"
    and "users s' = (users s)(username \<mapsto>
           u\<lparr>storage_used := storage_used u + int (length (up_content file))\<rparr>)"
    and "shares s' = shares s" and "shared_files s' = shared_files s"
    and "folders s' = folders s" and "rate_limits s' = rate_limits s"
proof -
  have ok: "fst (check_storage_quota username (int (length (up_content file))) s)"
    using assms(2,3) by (simp add: check_storage_quota_ok)
  show "snd (upload_item sha256 autoflush committed username folder_arg file (s, up, sk))
           = (up + 1, sk)"
    and "files s' = files s @ [new_record sha256 username folder_arg file False (next_file_id s)]"
    and "next_file_id s' = next_file_id s + 1"
    and "blobs s' = (if blobs s (blob_path (sha256 (up_content file))) = None
                     then (blobs s)(blob_path (sha256 (up_content file)) \<mapsto> up_content file)
                     else blobs s)"
    and "users s' = (users s)(username \<mapsto>
           u\<lparr>storage_used := storage_used u + int (length (up_content file))\<rparr>)"
    and "shares s' = shares s" and "shared_files s' = shared_files s"
    and "folders s' = folders s" and "rate_limits s' = rate_limits s"
    using assms(1,2) ok by (simp_all add: s'_def upload_item_unfold Let_def)
qed

subsection \<open>The upload loop\<close>

lemma upload_item_cases [consumes 0, case_names skipped duplicate charged]:
  fixes sha256 :: "bytes \<Rightarrow> string" and up sk :: nat and folder_arg :: "string option"
  obtains
    (skipped) "\<not> prior_upload autoflush committed username (sha256 (up_content file)) s"
      "\<not> fst (check_storage_quota username (int (length (up_content file))) s)"
  | (duplicate) "prior_upload autoflush committed username (sha256 (up_content file)) s"
  | (charged) u where "\<not> prior_upload autoflush committed username (sha256 (up_content file)) s"
      "users s username = Some u"
      "storage_used u + int (length (up_content file)) \<le> storage_quota u"
  by (auto simp: check_storage_quota_ok)

lemma upload_item_state_counters:
  "fst (upload_item sha256 autoflush committed username folder_arg file (s, up, sk))
     = fst (upload_item sha256 autoflush committed username folder_arg file (s, up', sk'))"
  by (simp add: upload_item_unfold Let_def)

lemma upload_loop_append:
  "upload_loop sha256 autoflush committed username folder_arg (xs @ ys) acc
     = upload_loop sha256 autoflush committed username folder_arg ys
         (upload_loop sha256 autoflush committed username folder_arg xs acc)"
  by (induction xs arbitrary: acc) simp_all

lemma upload_loop_state_counters:
  "fst (upload_loop sha256 autoflush committed username folder_arg fs (s, up, sk))
     = fst (upload_loop sha256 autoflush committed username folder_arg fs (s, up', sk'))"
proof (induction fs arbitrary: s up sk up' sk')
  case Nil
  show ?case by simp
next
  case (Cons item fs)
  obtain s1 up1 sk1 where a: "upload_item sha256 autoflush committed username folder_arg item
      (s, up, sk) = (s1, up1, sk1)"
    by (cases "upload_item sha256 autoflush committed username folder_arg item (s, up, sk)")
  obtain s2 up2 sk2 where b: "upload_item sha256 autoflush committed username folder_arg item
      (s, up', sk') = (s2, up2, sk2)"
    by (cases "upload_item sha256 autoflush committed username folder_arg item (s, up', sk')")
  have "s1 = s2"
    using upload_item_state_counters [of sha256 autoflush committed username folder_arg item
        s up sk up' sk'] a b by simp
  then show ?case
    using a b Cons.IH [of s1 up1 sk1 up2 sk2] by simp
qed

lemma upload_loop_invariant:
  assumes "P s"
    and "\<And>s up sk file. P s \<Longrightarrow>
           P (fst (upload_item sha256 autoflush committed username folder_arg file (s, up, sk)))"
  shows "P (fst (upload_loop sha256 autoflush committed username folder_arg fs (s, up, sk)))"
  using assms(1)
proof (induction fs arbitrary: s up sk)
  case Nil
  then show ?case by simp
next
  case (Cons item fs)
  obtain s1 up1 sk1 where a: "upload_item sha256 autoflush committed username folder_arg item
      (s, up, sk) = (s1, up1, sk1)"
    by (cases "upload_item sha256 autoflush committed username folder_arg item (s, up, sk)")
  have "P s1"
    using assms(2) [OF Cons.prems, of item up sk] a by simp
  then show ?case
    using Cons.IH [of s1 up1 sk1] a by simp
qed

lemma upload_file_state:
  assumes "cookie_user cookie = Some username"
  shows "snd (upload_file sha256 autoflush now cookie fs folder_arg s) =
    (if fst (check_rate_limit username ''upload'' now s)
     then fst (upload_loop sha256 autoflush (files s) username folder_arg fs
                 (snd (check_rate_limit username ''upload'' now s), 0, 0))
     else s)"
proof -
  obtain allowed s0 where crl: "check_rate_limit username ''upload'' now s = (allowed, s0)"
    by (cases "check_rate_limit username ''upload'' now s")
  have tabs: "files s0 = files s"
    using check_rate_limit_tables(2) [of username "''upload''" now s] crl by simp
  have same: "s0 = s" if "\<not> allowed"
    using that crl by (simp add: check_rate_limit_def split: if_splits)
  show ?thesis
    using assms crl tabs same
    by (cases allowed) (simp_all add: upload_file_def split: prod.splits)
qed

lemma upload_file_no_user:
  "cookie_user cookie = None \<Longrightarrow> snd (upload_file sha256 autoflush now cookie fs folder_arg s) = s"
  by (simp add: upload_file_def)

lemma prior_upload_at_start:
  "files s = committed \<Longrightarrow>
   prior_upload autoflush committed username h s
     \<longleftrightarrow> (\<exists>f \<in> set committed. uploader f = username \<and> file_hash f = h)"
  by (auto simp: prior_upload_def find_None_iff)

end
